theory Spec2Isabelle
  imports Main "HOL-Library.Word"
begin

section \<open>Data model\<close>

text \<open>
  The program keeps all its state in a PostgreSQL database and reaches it through SQL
  statements sent from \<^verbatim>\<open>src/api/lib.py\<close>. A table is a list of rows, a row a record
  with one field per column, a nullable column an \<open>option\<close>. A timestamp
  (\<^verbatim>\<open>timestamptz\<close>) is an integer on the time line; the only operations the code
  applies to timestamps are equality and \<^verbatim>\<open>MAX\<close>.
\<close>

type_synonym timestamp = int
type_synonym bytes = "8 word list"

text \<open>Table \<^verbatim>\<open>demo_sessions\<close>; the column \<^verbatim>\<open>map\<close> is the field \<open>map_name\<close>.\<close>

record demo_session =
  session_id :: string
  api_key :: string
  demo_name :: string
  active :: bool
  start_time :: timestamp
  end_time :: "timestamp option"
  fake_ip :: string
  map_name :: string
  steam_api_data :: "string option"
  ingested :: bool
  demo_oid :: "nat option"
  late_bytes :: "bytes option"
  created_at :: timestamp
  updated_at :: timestamp

text \<open>Table \<^verbatim>\<open>api_keys\<close>.\<close>

record api_key_row =
  k_steam_id :: string
  k_api_key :: string
  k_created_at :: timestamp
  k_updated_at :: timestamp

text \<open>Tables \<^verbatim>\<open>analysis\<close> and \<^verbatim>\<open>reviews\<close> of migration \<^verbatim>\<open>b941ebee3091\<close>.\<close>

record analysis_row =
  a_session_id :: string
  a_target_steam_id :: string
  a_created_at :: timestamp
  a_detection_count :: int

record review_row =
  r_session_id :: string
  r_target_steam_id :: string
  r_reviewer_steam_id :: string
  r_created_at :: timestamp
  r_verdict :: string

text \<open>
  The database: the four tables and the server's large objects (\<^verbatim>\<open>pg_largeobject\<close>),
  an association list from object identifier to content.
\<close>

record db =
  api_keys :: "api_key_row list"
  demo_sessions :: "demo_session list"
  lobjects :: "(nat \<times> bytes) list"
  analysis :: "analysis_row list"
  reviews :: "review_row list"

text \<open>
  What a call can raise: the exceptions of the database driver and of SQLAlchemy that the
  statements of the code can meet, and the failures the specification names for the
  operations built on them.
\<close>

datatype error =
    UniqueViolation
  | ForeignKeyViolation
  | MultipleResultsFound
  | OperationalError
  | Unauthorized
  | SessionAlreadyActive
  | NotFound
  | DuplicateReview
  | UnknownSubject

section \<open>SQL building blocks\<close>

text \<open>\<^verbatim>\<open>SELECT * FROM t WHERE wh\<close>.\<close>

definition sql_select :: "('r \<Rightarrow> bool) \<Rightarrow> 'r list \<Rightarrow> 'r list" where
  "sql_select wh rows = filter wh rows"

text \<open>\<^verbatim>\<open>UPDATE t SET ... WHERE wh\<close>: every row that satisfies \<open>wh\<close> is rewritten, the others stay.\<close>

definition sql_update :: "('r \<Rightarrow> bool) \<Rightarrow> ('r \<Rightarrow> 'r) \<Rightarrow> 'r list \<Rightarrow> 'r list" where
  "sql_update wh upd rows = map (\<lambda>r. if wh r then upd r else r) rows"

text \<open>\<^verbatim>\<open>SELECT MAX(c) FROM ...\<close>: \<^verbatim>\<open>NULL\<close> (here \<open>None\<close>) over no rows.\<close>

fun sql_max :: "timestamp list \<Rightarrow> timestamp option" where
  "sql_max [] = None"
| "sql_max (x # xs) = (case sql_max xs of None \<Rightarrow> Some x | Some m \<Rightarrow> Some (max x m))"

text \<open>
  SQLAlchemy's \<^verbatim>\<open>Result.scalar_one_or_none()\<close>: \<^verbatim>\<open>None\<close> for no row, the first
  column of the row when there is exactly one, \<^verbatim>\<open>MultipleResultsFound\<close> otherwise.
\<close>

fun scalar_one_or_none :: "'a list \<Rightarrow> error + 'a option" where
  "scalar_one_or_none [] = Inr None"
| "scalar_one_or_none [x] = Inr (Some x)"
| "scalar_one_or_none (x # y # zs) = Inl MultipleResultsFound"

section \<open>Session operations of \<^verbatim>\<open>lib.py\<close>\<close>

text \<open>\<^verbatim>\<open>_check_key_exists\<close>: is there a row of \<^verbatim>\<open>api_keys\<close> with this key.\<close>

definition check_key_exists :: "db \<Rightarrow> string \<Rightarrow> bool" where
  "check_key_exists d key =
     (let data = sql_select (\<lambda>r. k_api_key r = key) (api_keys d) in
      if data = [] then False else True)"

text \<open>\<^verbatim>\<open>_check_is_active\<close>: is there a row of this key with \<^verbatim>\<open>active = true\<close>.\<close>

definition check_is_active :: "db \<Rightarrow> string \<Rightarrow> bool" where
  "check_is_active d key =
     (let data = sql_select (\<lambda>r. api_key r = key \<and> active r) (demo_sessions d) in
      data \<noteq> [])"

text \<open>
  \<^verbatim>\<open>_close_session\<close>: one \<^verbatim>\<open>UPDATE\<close> on the rows with \<^verbatim>\<open>active = True AND api_key = :api_key\<close>,
  then the commit. The statement touches no constrained column, so the call returns.
\<close>

definition close_session :: "db \<Rightarrow> string \<Rightarrow> timestamp \<Rightarrow> error + db" where
  "close_session d key current_time =
     Inr (d\<lparr>demo_sessions :=
        sql_update (\<lambda>r. active r \<and> api_key r = key)
          (\<lambda>r. r\<lparr>active := False, end_time := Some current_time, updated_at := current_time\<rparr>)
          (demo_sessions d)\<rparr>)"

text \<open>
  \<^verbatim>\<open>_get_latest_session_id\<close>: the inner query takes the greatest \<^verbatim>\<open>start_time\<close> among
  the rows of the key; the outer query selects, in the whole table, the rows with that
  \<^verbatim>\<open>start_time\<close> (a comparison with \<^verbatim>\<open>NULL\<close> selects nothing) and
  \<^verbatim>\<open>scalar_one_or_none\<close> reads the result.
\<close>

definition get_latest_session_id :: "db \<Rightarrow> string \<Rightarrow> error + string option" where
  "get_latest_session_id d key =
     (let m = sql_max (map start_time (sql_select (\<lambda>r. api_key r = key) (demo_sessions d))) in
      scalar_one_or_none
        (map session_id (sql_select (\<lambda>r. Some (start_time r) = m) (demo_sessions d))))"

text \<open>
  Modelled from the spec: the declaration of the table \<^verbatim>\<open>demo_sessions\<close> is not among the
  sources. Its primary key is \<^verbatim>\<open>session_id\<close>: the specification calls it globally
  unique, and the tables of the migration refer to it with
  \<^verbatim>\<open>session_id varchar REFERENCES demo_sessions\<close>.
\<close>

definition demo_sessions_pkey :: "demo_session \<Rightarrow> string" where
  "demo_sessions_pkey r = session_id r"

text \<open>
  \<^verbatim>\<open>_start_session\<close>: one \<^verbatim>\<open>INSERT\<close>, then the commit. The three calls of
  \<^verbatim>\<open>datetime.now()\<close> are the three clock readings \<open>now1\<close>, \<open>now2\<close>, \<open>now3\<close>; the columns
  \<^verbatim>\<open>demo_oid\<close> and \<^verbatim>\<open>late_bytes\<close> are not listed and stay \<^verbatim>\<open>NULL\<close>. The server
  refuses a row whose key is already in the table.
\<close>

definition start_session ::
  "db \<Rightarrow> string \<Rightarrow> string \<Rightarrow> string \<Rightarrow> string \<Rightarrow> string \<Rightarrow>
   timestamp \<Rightarrow> timestamp \<Rightarrow> timestamp \<Rightarrow> error + db" where
  "start_session d key sid dname ip map_str now1 now2 now3 =
     (if sid \<in> set (map demo_sessions_pkey (demo_sessions d)) then Inl UniqueViolation
      else Inr (d\<lparr>demo_sessions := demo_sessions d @
        [\<lparr>session_id = sid, api_key = key, demo_name = dname, active = True,
          start_time = now1, end_time = None, fake_ip = ip, map_name = map_str,
          steam_api_data = None, ingested = False, demo_oid = None, late_bytes = None,
          created_at = now2, updated_at = now3\<rparr>]\<rparr>))"

text \<open>
  The server gives a new large object an identifier that no large object has; here the
  successor of the greatest one in use.
\<close>

definition new_oid :: "(nat \<times> bytes) list \<Rightarrow> nat" where
  "new_oid los = Suc (fold max (map fst los) 0)"

text \<open>
  \<^verbatim>\<open>conn.connection.lobject(mode="w", new_file=demo_path)\<close>: the driver imports the file at
  \<open>demo_path\<close> into a new large object and the code reads its \<^verbatim>\<open>oid\<close>. The file system is
  the map \<open>fs\<close> from path to content; a file that cannot be read raises.
\<close>

definition lobject_new_file ::
  "(string \<Rightarrow> bytes option) \<Rightarrow> db \<Rightarrow> string \<Rightarrow> error + (nat \<times> db)" where
  "lobject_new_file fs d demo_path =
     (case fs demo_path of
        None \<Rightarrow> Inl OperationalError
      | Some content \<Rightarrow>
          (let oid = new_oid (lobjects d) in
           Inr (oid, d\<lparr>lobjects := (oid, content) # lobjects d\<rparr>)))"

text \<open>The \<^verbatim>\<open>UPDATE\<close> of \<^verbatim>\<open>_close_session_with_demo\<close>, on the rows of this key and session.\<close>

definition update_with_demo :: "db \<Rightarrow> string \<Rightarrow> string \<Rightarrow> timestamp \<Rightarrow> nat \<Rightarrow> db" where
  "update_with_demo d key sid current_time oid =
     d\<lparr>demo_sessions :=
        sql_update (\<lambda>r. api_key r = key \<and> session_id r = sid)
          (\<lambda>r. r\<lparr>active := False, end_time := Some current_time, demo_oid := Some oid,
                 updated_at := current_time\<rparr>)
          (demo_sessions d)\<rparr>"

text \<open>
  \<^verbatim>\<open>_close_session_with_demo\<close>: the large object first, then the \<^verbatim>\<open>UPDATE\<close>, then the
  commit, all on one connection. An exception of the first step leaves the block before
  the commit, so nothing is stored.
\<close>

definition close_session_with_demo ::
  "(string \<Rightarrow> bytes option) \<Rightarrow> db \<Rightarrow> string \<Rightarrow> string \<Rightarrow> timestamp \<Rightarrow> string \<Rightarrow> error + db" where
  "close_session_with_demo fs d key sid current_time demo_path =
     (case lobject_new_file fs d demo_path of
        Inl e \<Rightarrow> Inl e
      | Inr (oid, d1) \<Rightarrow> Inr (update_with_demo d1 key sid current_time oid))"

text \<open>
  \<^verbatim>\<open>_late_bytes\<close> (the name of the column is taken, hence the suffix): one \<^verbatim>\<open>UPDATE\<close> on
  the rows of the key whose \<^verbatim>\<open>updated_at\<close> is the greatest \<^verbatim>\<open>updated_at\<close> of the key, the
  subquery being evaluated on the table as it is before the statement.
\<close>

definition late_bytes_fn :: "db \<Rightarrow> string \<Rightarrow> bytes \<Rightarrow> timestamp \<Rightarrow> error + db" where
  "late_bytes_fn d key lb current_time =
     (let m = sql_max (map updated_at (sql_select (\<lambda>r. api_key r = key) (demo_sessions d))) in
      Inr (d\<lparr>demo_sessions :=
        sql_update (\<lambda>r. api_key r = key \<and> Some (updated_at r) = m)
          (\<lambda>r. r\<lparr>late_bytes := Some lb, updated_at := current_time\<rparr>)
          (demo_sessions d)\<rparr>))"

text \<open>
  \<^verbatim>\<open>update_api_key\<close>: \<^verbatim>\<open>UPDATE api_keys SET api_key = :new_api_key WHERE steam_id = :steam_id\<close>,
  then the commit. The function reads no clock.
\<close>

definition update_api_key :: "db \<Rightarrow> string \<Rightarrow> string \<Rightarrow> error + db" where
  "update_api_key d steam new_api_key =
     Inr (d\<lparr>api_keys :=
        sql_update (\<lambda>r. k_steam_id r = steam) (\<lambda>r. r\<lparr>k_api_key := new_api_key\<rparr>) (api_keys d)\<rparr>)"

section \<open>Listing the sessions of a key\<close>

text \<open>
  The dataclass \<^verbatim>\<open>DemoWrapper\<close>. \<^verbatim>\<open>from_db_row\<close> fills it by position from the row
  (\<^verbatim>\<open>DemoWrapper(*_row_tuple)\<close>). The declaration of the table is not among the sources;
  its fourteen columns are taken in the order of the first fourteen fields of the
  dataclass, which is what the code assumes (``Making assumptions about the tuple order
  here''), and \<^verbatim>\<open>map_picture_url\<close> keeps its default \<^verbatim>\<open>None\<close>.
\<close>

record DemoWrapper =
  dw_demo_id :: string
  dw_api_key :: string
  dw_demo_name :: string
  dw_active :: bool
  dw_start_time :: timestamp
  dw_end_time :: "timestamp option"
  dw_fake_ip :: string
  dw_map :: string
  dw_steam_api_data :: "string option"
  dw_ingested :: bool
  dw_demo_oid :: "nat option"
  dw_late_bytes :: "bytes option"
  dw_created_at :: timestamp
  dw_updated_at :: timestamp
  dw_map_picture_url :: "string option"

definition from_db_row :: "demo_session \<Rightarrow> bool \<Rightarrow> DemoWrapper" where
  "from_db_row row hide_api_key =
     (let result = \<lparr>dw_demo_id = session_id row, dw_api_key = api_key row,
            dw_demo_name = demo_name row, dw_active = active row,
            dw_start_time = start_time row, dw_end_time = end_time row,
            dw_fake_ip = fake_ip row, dw_map = map_name row,
            dw_steam_api_data = steam_api_data row, dw_ingested = ingested row,
            dw_demo_oid = demo_oid row, dw_late_bytes = late_bytes row,
            dw_created_at = created_at row, dw_updated_at = updated_at row,
            dw_map_picture_url = None\<rparr>
      in if hide_api_key then result\<lparr>dw_api_key := ''0''\<rparr> else result)"

text \<open>
  \<^verbatim>\<open>get_user_demo_info\<close>: \<^verbatim>\<open>None\<close> when the query gives no row, else one wrapper per
  row, built with the default \<^verbatim>\<open>hide_api_key=True\<close>.
\<close>

definition get_user_demo_info :: "db \<Rightarrow> string \<Rightarrow> DemoWrapper list option" where
  "get_user_demo_info d key =
     (let result = sql_select (\<lambda>r. api_key r = key) (demo_sessions d) in
      if result = [] then None
      else Some (map (\<lambda>row. from_db_row row True) result))"

section \<open>Operations of the specification built on these\<close>

text \<open>
  What the store holds after a call: the new state when the call returned, the old one
  when it raised (the transaction is not committed).
\<close>

definition stored_after :: "db \<Rightarrow> error + db \<Rightarrow> db" where
  "stored_after d res = (case res of Inl e \<Rightarrow> d | Inr d' \<Rightarrow> d')"

text \<open>
  Modelled from the spec: the request handler that starts a session and its guards are not
  among the sources. \<open>StartSession\<close> follows section 4.2: it fails with \<open>Unauthorized\<close>
  without a valid credential, with \<open>SessionAlreadyActive\<close> when the query for a row with
  \<^verbatim>\<open>active=true\<close> of this credential finds one, and inserts the session otherwise. The two
  checks and the insert are the functions of \<^verbatim>\<open>lib.py\<close> above.
\<close>

definition StartSession ::
  "db \<Rightarrow> string \<Rightarrow> string \<Rightarrow> string \<Rightarrow> string \<Rightarrow> string \<Rightarrow>
   timestamp \<Rightarrow> timestamp \<Rightarrow> timestamp \<Rightarrow> error + db" where
  "StartSession d key sid dname ip map_str now1 now2 now3 =
     (if \<not> check_key_exists d key then Inl Unauthorized
      else if check_is_active d key then Inl SessionAlreadyActive
      else start_session d key sid dname ip map_str now1 now2 now3)"

text \<open>
  An \<^verbatim>\<open>INSERT\<close> into \<^verbatim>\<open>reviews\<close> under the constraints the migration declares:
  \<^verbatim>\<open>PRIMARY KEY (session_id, target_steam_id, reviewer_steam_id)\<close> and
  \<^verbatim>\<open>session_id varchar REFERENCES demo_sessions\<close>.
\<close>

definition review_key :: "review_row \<Rightarrow> string \<times> string \<times> string" where
  "review_key r = (r_session_id r, r_target_steam_id r, r_reviewer_steam_id r)"

definition insert_review :: "db \<Rightarrow> review_row \<Rightarrow> error + db" where
  "insert_review d rv =
     (if review_key rv \<in> set (map review_key (reviews d)) then Inl UniqueViolation
      else if r_session_id rv \<notin> set (map session_id (demo_sessions d)) then Inl ForeignKeyViolation
      else Inr (d\<lparr>reviews := reviews d @ [rv]\<rparr>))"

text \<open>
  Modelled from the spec: the code that records a verdict and the code that tallies are
  not among the sources; only the table is. \<open>SubmitVerdict\<close> follows section 4.5: it fails
  with \<open>DuplicateReview\<close> if the triple already has a row, with \<open>UnknownSubject\<close> if no
  analysis record exists for the session and target, and inserts the row otherwise.
  \<open>Tally\<close> gives, for each verdict, the number of rows of the session and target with it.
\<close>

definition SubmitVerdict ::
  "db \<Rightarrow> string \<Rightarrow> string \<Rightarrow> string \<Rightarrow> string \<Rightarrow> timestamp \<Rightarrow> error + db" where
  "SubmitVerdict d sid target reviewer verdict now =
     (if (sid, target, reviewer) \<in> set (map review_key (reviews d)) then Inl DuplicateReview
      else if sql_select (\<lambda>a. a_session_id a = sid \<and> a_target_steam_id a = target) (analysis d) = []
        then Inl UnknownSubject
      else insert_review d
        \<lparr>r_session_id = sid, r_target_steam_id = target, r_reviewer_steam_id = reviewer,
         r_created_at = now, r_verdict = verdict\<rparr>)"

definition Tally :: "db \<Rightarrow> string \<Rightarrow> string \<Rightarrow> string \<Rightarrow> nat" where
  "Tally d sid target verdict =
     length (sql_select
       (\<lambda>r. r_session_id r = sid \<and> r_target_steam_id r = target \<and> r_verdict r = verdict)
       (reviews d))"

section \<open>Invariants of the store\<close>

text \<open>At most one row with \<^verbatim>\<open>active = true\<close> for each key.\<close>

definition one_active_per_key :: "db \<Rightarrow> bool" where
  "one_active_per_key d = distinct (map api_key (sql_select active (demo_sessions d)))"

text \<open>Every \<^verbatim>\<open>demo_oid\<close> of a session row is the identifier of a stored large object.\<close>

definition blob_refs_written :: "db \<Rightarrow> bool" where
  "blob_refs_written d =
     list_all (\<lambda>r. case demo_oid r of None \<Rightarrow> True | Some oid \<Rightarrow> map_of (lobjects d) oid \<noteq> None)
       (demo_sessions d)"

section \<open>Example stores\<close>

text \<open>Small concrete stores and files, on which the theorems below are run.\<close>

definition example_session :: "string \<Rightarrow> string \<Rightarrow> bool \<Rightarrow> timestamp \<Rightarrow> demo_session" where
  "example_session sid key act t =
     \<lparr>session_id = sid, api_key = key, demo_name = ''demo'', active = act,
      start_time = t, end_time = (if act then None else Some t), fake_ip = ''169.254.0.1'',
      map_name = ''pl_upward'', steam_api_data = None, ingested = False, demo_oid = None,
      late_bytes = None, created_at = t, updated_at = t\<rparr>"

definition example_keys :: "api_key_row list" where
  "example_keys =
     [\<lparr>k_steam_id = ''u1'', k_api_key = ''k1'', k_created_at = 1, k_updated_at = 1\<rparr>,
      \<lparr>k_steam_id = ''u2'', k_api_key = ''k2'', k_created_at = 2, k_updated_at = 2\<rparr>]"

definition example_db :: "demo_session list \<Rightarrow> db" where
  "example_db rows =
     \<lparr>api_keys = example_keys, demo_sessions = rows, lobjects = [], analysis = [], reviews = []\<rparr>"

definition example_fs :: "string \<Rightarrow> bytes option" where
  "example_fs path = (if path = ''/demos/s1.dem'' then Some [72, 76, 50] else None)"

section \<open>Facts about the SQL building blocks\<close>

lemma sql_update_length: "length (sql_update wh upd rows) = length rows"
  by (simp add: sql_update_def)

lemma sql_update_nth:
  "i < length rows \<Longrightarrow>
   sql_update wh upd rows ! i = (if wh (rows ! i) then upd (rows ! i) else rows ! i)"
  by (simp add: sql_update_def)

lemma sql_update_none: "\<forall>r \<in> set rows. \<not> wh r \<Longrightarrow> sql_update wh upd rows = rows"
  by (induction rows) (auto simp: sql_update_def)

lemma sql_max_None: "sql_max xs = None \<longleftrightarrow> xs = []"
  by (induction xs) (auto split: option.splits)

lemma sql_max_Some: "xs \<noteq> [] \<Longrightarrow> sql_max xs = Some (Max (set xs))"
proof (induction xs)
  case Nil
  then show ?case by simp
next
  case (Cons x xs)
  show ?case
  proof (cases "xs = []")
    case True
    then show ?thesis by simp
  next
    case False
    with Cons have "sql_max xs = Some (Max (set xs))" by simp
    with False show ?thesis by (simp add: max.commute)
  qed
qed

section \<open>Closing the active sessions of a key\<close>

text \<open>
  C6. \<open>close_session\<close> returns; it sets \<open>active\<close> to false and \<open>end_time\<close> and \<open>updated_at\<close>
  to the time given on every row of the key that is active, leaves every other row (not
  active, or of another key) and every other table as they are, and changes nothing at
  all when the key has no active session.
\<close>

theorem close_session_effect:
  "\<exists>d'. close_session d key t = Inr d' \<and>
     api_keys d' = api_keys d \<and> lobjects d' = lobjects d \<and>
     analysis d' = analysis d \<and> reviews d' = reviews d \<and>
     length (demo_sessions d') = length (demo_sessions d) \<and>
     (\<forall>i < length (demo_sessions d).
        demo_sessions d' ! i =
          (if active (demo_sessions d ! i) \<and> api_key (demo_sessions d ! i) = key
           then (demo_sessions d ! i)\<lparr>active := False, end_time := Some t, updated_at := t\<rparr>
           else demo_sessions d ! i)) \<and>
     (\<not> check_is_active d key \<longrightarrow> d' = d)"
proof -
  let ?wh = "\<lambda>r. active r \<and> api_key r = key"
  let ?upd = "\<lambda>r::demo_session. r\<lparr>active := False, end_time := Some t, updated_at := t\<rparr>"
  let ?d' = "d\<lparr>demo_sessions := sql_update ?wh ?upd (demo_sessions d)\<rparr>"
  have call: "close_session d key t = Inr ?d'"
    by (simp add: close_session_def)
  have rows: "\<forall>i < length (demo_sessions d).
      demo_sessions ?d' ! i =
        (if ?wh (demo_sessions d ! i) then ?upd (demo_sessions d ! i) else demo_sessions d ! i)"
    by (simp add: sql_update_nth)
  have idle: "\<not> check_is_active d key \<longrightarrow> ?d' = d"
  proof
    assume "\<not> check_is_active d key"
    then have "\<forall>r \<in> set (demo_sessions d). \<not> ?wh r"
      by (auto simp: check_is_active_def sql_select_def filter_empty_conv)
    then have "sql_update ?wh ?upd (demo_sessions d) = demo_sessions d"
      by (rule sql_update_none)
    then show "?d' = d" by simp
  qed
  from call rows idle show ?thesis
    by (simp add: sql_update_length)
qed

theorem close_session_effect_witness:
  "close_session
     (example_db [example_session ''s1'' ''k1'' True 3, example_session ''s0'' ''k1'' False 1,
                  example_session ''s2'' ''k2'' True 4]) ''k1'' 9
   = Inr (example_db
       [(example_session ''s1'' ''k1'' True 3)\<lparr>active := False, end_time := Some 9, updated_at := 9\<rparr>,
        example_session ''s0'' ''k1'' False 1, example_session ''s2'' ''k2'' True 4])
   \<and> \<not> check_is_active (example_db [example_session ''s2'' ''k2'' True 4]) ''k1''
   \<and> close_session (example_db [example_session ''s2'' ''k2'' True 4]) ''k1'' 9
       = Inr (example_db [example_session ''s2'' ''k2'' True 4])"
  using close_session_effect
          [of "example_db [example_session ''s1'' ''k1'' True 3, example_session ''s0'' ''k1'' False 1,
                  example_session ''s2'' ''k2'' True 4]" "''k1''" 9]
        close_session_effect [of "example_db [example_session ''s2'' ''k2'' True 4]" "''k1''" 9]
  by (simp add: close_session_def check_is_active_def sql_update_def sql_select_def
        example_db_def example_session_def)

section \<open>Attaching late bytes\<close>

text \<open>
  C5. When one session \<open>r\<close> of the key has an \<open>updated_at\<close> greater than that of every other
  session of the key, \<open>late_bytes_fn\<close> sets \<open>late_bytes\<close> and moves \<open>updated_at\<close> to the time given
  on \<open>r\<close> and on no other row. The run below is the scenario of the specification: session
  \<open>s1\<close> is started and closed, then \<open>s2\<close> is started and closed for the same key, and the late
  bytes land on \<open>s2\<close> while \<open>s1\<close> keeps its \<open>late_bytes\<close>.
\<close>

theorem late_bytes_patches_latest:
  assumes "r \<in> set (demo_sessions d)" and "api_key r = key"
    and "\<forall>x \<in> set (demo_sessions d). api_key x = key \<and> x \<noteq> r \<longrightarrow> updated_at x < updated_at r"
  shows "late_bytes_fn d key lb t =
           Inr (d\<lparr>demo_sessions :=
                  map (\<lambda>x. if x = r then x\<lparr>late_bytes := Some lb, updated_at := t\<rparr> else x)
                    (demo_sessions d)\<rparr>)"
proof -
  let ?ts = "map updated_at (sql_select (\<lambda>x. api_key x = key) (demo_sessions d))"
  have mem: "updated_at r \<in> set ?ts"
    using assms(1,2) by (auto simp: sql_select_def)
  have ub: "y \<le> updated_at r" if "y \<in> set ?ts" for y
  proof -
    from that obtain x where x: "x \<in> set (demo_sessions d)" "api_key x = key" "y = updated_at x"
      by (auto simp: sql_select_def)
    show ?thesis
    proof (cases "x = r")
      case True
      with x show ?thesis by simp
    next
      case False
      with x assms(3) show ?thesis by fastforce
    qed
  qed
  have "Max (set ?ts) = updated_at r"
    using mem ub by (intro Max_eqI) auto
  moreover have "?ts \<noteq> []" using mem by auto
  ultimately have m: "sql_max ?ts = Some (updated_at r)"
    by (simp add: sql_max_Some)
  have sel: "(api_key x = key \<and> Some (updated_at x) = sql_max ?ts) \<longleftrightarrow> x = r"
    if "x \<in> set (demo_sessions d)" for x
    using that assms(2,3) m by fastforce
  have "sql_update (\<lambda>x. api_key x = key \<and> Some (updated_at x) = sql_max ?ts)
          (\<lambda>x. x\<lparr>late_bytes := Some lb, updated_at := t\<rparr>) (demo_sessions d)
        = map (\<lambda>x. if x = r then x\<lparr>late_bytes := Some lb, updated_at := t\<rparr> else x) (demo_sessions d)"
    unfolding sql_update_def by (rule map_cong) (simp_all add: sel)
  then show ?thesis
    by (simp add: late_bytes_fn_def Let_def)
qed

theorem late_bytes_patches_latest_witness:
  "start_session (example_db []) ''k1'' ''s1'' ''demo'' ''169.254.0.1'' ''pl_upward'' 1 1 1
     = Inr (example_db [example_session ''s1'' ''k1'' True 1])
   \<and> close_session (example_db [example_session ''s1'' ''k1'' True 1]) ''k1'' 2
     = Inr (example_db [(example_session ''s1'' ''k1'' True 1)
                          \<lparr>active := False, end_time := Some 2, updated_at := 2\<rparr>])
   \<and> start_session
       (example_db [(example_session ''s1'' ''k1'' True 1)
                          \<lparr>active := False, end_time := Some 2, updated_at := 2\<rparr>])
       ''k1'' ''s2'' ''demo'' ''169.254.0.1'' ''pl_upward'' 3 3 3
     = Inr (example_db [(example_session ''s1'' ''k1'' True 1)
                          \<lparr>active := False, end_time := Some 2, updated_at := 2\<rparr>,
                        example_session ''s2'' ''k1'' True 3])
   \<and> close_session
       (example_db [(example_session ''s1'' ''k1'' True 1)
                          \<lparr>active := False, end_time := Some 2, updated_at := 2\<rparr>,
                        example_session ''s2'' ''k1'' True 3]) ''k1'' 4
     = Inr (example_db [(example_session ''s1'' ''k1'' True 1)
                          \<lparr>active := False, end_time := Some 2, updated_at := 2\<rparr>,
                        (example_session ''s2'' ''k1'' True 3)
                          \<lparr>active := False, end_time := Some 4, updated_at := 4\<rparr>])
   \<and> late_bytes_fn
       (example_db [(example_session ''s1'' ''k1'' True 1)
                          \<lparr>active := False, end_time := Some 2, updated_at := 2\<rparr>,
                        (example_session ''s2'' ''k1'' True 3)
                          \<lparr>active := False, end_time := Some 4, updated_at := 4\<rparr>])
       ''k1'' [7, 9] 5
     = Inr (example_db [(example_session ''s1'' ''k1'' True 1)
                          \<lparr>active := False, end_time := Some 2, updated_at := 2\<rparr>,
                        (example_session ''s2'' ''k1'' True 3)
                          \<lparr>active := False, end_time := Some 4, updated_at := 5,
                           late_bytes := Some [7, 9]\<rparr>])"
  using late_bytes_patches_latest
    [of "(example_session ''s2'' ''k1'' True 3)\<lparr>active := False, end_time := Some 4, updated_at := 4\<rparr>"
        "example_db [(example_session ''s1'' ''k1'' True 1)
                          \<lparr>active := False, end_time := Some 2, updated_at := 2\<rparr>,
                        (example_session ''s2'' ''k1'' True 3)
                          \<lparr>active := False, end_time := Some 4, updated_at := 4\<rparr>]"
        "''k1''" "[7, 9]" 5]
  by (simp add: start_session_def close_session_def demo_sessions_pkey_def sql_update_def
        example_db_def example_session_def)

lemma not_active_conv:
  "\<not> check_is_active d key \<longleftrightarrow> key \<notin> set (map api_key (sql_select active (demo_sessions d)))"
  by (auto simp: check_is_active_def sql_select_def filter_empty_conv)

lemma start_session_rows:
  "start_session d key sid dn ip mp n1 n2 n3 = Inr d' \<Longrightarrow>
   api_keys d' = api_keys d \<and>
   map api_key (sql_select active (demo_sessions d')) =
     map api_key (sql_select active (demo_sessions d)) @ [key]"
  by (auto simp: start_session_def sql_select_def split: if_splits)

lemma StartSession_Inr:
  "StartSession d key sid dn ip mp n1 n2 n3 = Inr d' \<Longrightarrow>
   check_key_exists d key \<and> \<not> check_is_active d key \<and>
   start_session d key sid dn ip mp n1 n2 n3 = Inr d'"
  by (auto simp: StartSession_def split: if_splits)

section \<open>At most one active session for a key\<close>

text \<open>
  C1. In a store with at most one active session for each key: \<open>StartSession\<close> for a valid
  key that has an active session fails with \<open>SessionAlreadyActive\<close>; after a \<open>StartSession\<close>
  that returned, the store still has at most one active session for each key and a second
  \<open>StartSession\<close> for the same key fails with \<open>SessionAlreadyActive\<close>; and whatever the call
  did, the store it leaves has at most one active session for each key.
\<close>

theorem StartSession_one_active:
  assumes "one_active_per_key d"
  shows "(check_key_exists d key \<and> check_is_active d key \<longrightarrow>
            StartSession d key sid dn ip mp n1 n2 n3 = Inl SessionAlreadyActive) \<and>
         (StartSession d key sid dn ip mp n1 n2 n3 = Inr d' \<longrightarrow>
            one_active_per_key d' \<and>
            StartSession d' key sid2 dn2 ip2 mp2 m1 m2 m3 = Inl SessionAlreadyActive) \<and>
         one_active_per_key (stored_after d (StartSession d key sid dn ip mp n1 n2 n3))"
proof -
  have guard: "check_key_exists d key \<and> check_is_active d key \<longrightarrow>
      StartSession d key sid dn ip mp n1 n2 n3 = Inl SessionAlreadyActive"
    by (simp add: StartSession_def)
  have step: "one_active_per_key d' \<and>
      StartSession d' key sid2 dn2 ip2 mp2 m1 m2 m3 = Inl SessionAlreadyActive"
    if ok: "StartSession d key sid dn ip mp n1 n2 n3 = Inr d'" for d'
  proof -
    from ok have k: "check_key_exists d key" and idle: "\<not> check_is_active d key"
      and ins: "start_session d key sid dn ip mp n1 n2 n3 = Inr d'"
      using StartSession_Inr by blast+
    from start_session_rows [OF ins]
    have keys: "api_keys d' = api_keys d"
      and act: "map api_key (sql_select active (demo_sessions d')) =
                map api_key (sql_select active (demo_sessions d)) @ [key]"
      by simp_all
    from idle not_active_conv [of d key]
    have "key \<notin> set (map api_key (sql_select active (demo_sessions d)))"
      by blast
    with assms act have inv: "one_active_per_key d'"
      by (simp add: one_active_per_key_def)
    from act have "check_is_active d' key"
      using not_active_conv [of d' key] by simp
    moreover from k keys have "check_key_exists d' key"
      by (simp add: check_key_exists_def)
    ultimately have "StartSession d' key sid2 dn2 ip2 mp2 m1 m2 m3 = Inl SessionAlreadyActive"
      by (simp add: StartSession_def)
    with inv show ?thesis by simp
  qed
  have stored: "one_active_per_key (stored_after d (StartSession d key sid dn ip mp n1 n2 n3))"
  proof (cases "StartSession d key sid dn ip mp n1 n2 n3")
    case (Inl e)
    with assms show ?thesis by (simp add: stored_after_def)
  next
    case (Inr d1)
    with step [of d1] show ?thesis by (simp add: stored_after_def)
  qed
  from guard step [of d'] stored show ?thesis by blast
qed

theorem StartSession_one_active_witness:
  "one_active_per_key (example_db [example_session ''s0'' ''k2'' True 1])
   \<and> StartSession (example_db [example_session ''s0'' ''k2'' True 1])
        ''k1'' ''s1'' ''demo'' ''169.254.0.1'' ''pl_upward'' 2 2 2
      = Inr (example_db [example_session ''s0'' ''k2'' True 1, example_session ''s1'' ''k1'' True 2])
   \<and> one_active_per_key
        (example_db [example_session ''s0'' ''k2'' True 1, example_session ''s1'' ''k1'' True 2])
   \<and> check_key_exists
        (example_db [example_session ''s0'' ''k2'' True 1, example_session ''s1'' ''k1'' True 2]) ''k1''
   \<and> check_is_active
        (example_db [example_session ''s0'' ''k2'' True 1, example_session ''s1'' ''k1'' True 2]) ''k1''
   \<and> StartSession
        (example_db [example_session ''s0'' ''k2'' True 1, example_session ''s1'' ''k1'' True 2])
        ''k1'' ''s2'' ''demo'' ''169.254.0.1'' ''pl_upward'' 3 3 3
      = Inl SessionAlreadyActive"
  using StartSession_one_active
    [of "example_db [example_session ''s0'' ''k2'' True 1]" "''k1''" "''s1''" "''demo''"
        "''169.254.0.1''" "''pl_upward''" 2 2 2
        "example_db [example_session ''s0'' ''k2'' True 1, example_session ''s1'' ''k1'' True 2]"
        "''s2''" "''demo''" "''169.254.0.1''" "''pl_upward''" 3 3 3]
    StartSession_one_active
    [of "example_db [example_session ''s0'' ''k2'' True 1, example_session ''s1'' ''k1'' True 2]"
        "''k1''" "''s2''" "''demo''" "''169.254.0.1''" "''pl_upward''" 3 3 3]
  by (simp add: StartSession_def start_session_def check_key_exists_def check_is_active_def
        one_active_per_key_def demo_sessions_pkey_def sql_select_def
        example_db_def example_keys_def example_session_def)

lemma start_session_no_guard:
  "start_session (example_db [example_session ''s1'' ''k1'' True 2])
     ''k1'' ''s2'' ''demo'' ''169.254.0.1'' ''pl_upward'' 3 3 3
   = Inr (example_db [example_session ''s1'' ''k1'' True 2, example_session ''s2'' ''k1'' True 3])
   \<and> \<not> one_active_per_key
        (example_db [example_session ''s1'' ''k1'' True 2, example_session ''s2'' ''k1'' True 3])"
  by (simp add: start_session_def one_active_per_key_def demo_sessions_pkey_def sql_select_def
        example_db_def example_session_def)

lemma fold_max_ge: "a \<le> fold max xs (a::nat)"
proof (induction xs arbitrary: a)
  case Nil
  show ?case by simp
next
  case (Cons x xs)
  have "a \<le> max x a" by simp
  also have "max x a \<le> fold max xs (max x a)" by (rule Cons.IH)
  finally show ?case by simp
qed

lemma fold_max_upper: "x \<in> set xs \<Longrightarrow> x \<le> fold max xs (a::nat)"
proof (induction xs arbitrary: a)
  case Nil
  then show ?case by simp
next
  case (Cons y ys)
  show ?case
  proof (cases "x = y")
    case True
    have "y \<le> max y a" by simp
    also have "max y a \<le> fold max ys (max y a)" by (rule fold_max_ge)
    finally show ?thesis using True by simp
  next
    case False
    with Cons.prems have "x \<in> set ys" by simp
    then show ?thesis by (simp add: Cons.IH)
  qed
qed

lemma new_oid_fresh: "map_of los (new_oid los) = None"
proof -
  have "new_oid los \<notin> fst ` set los"
  proof
    assume "new_oid los \<in> fst ` set los"
    then have "new_oid los \<in> set (map fst los)" by simp
    then have "new_oid los \<le> fold max (map fst los) 0" by (rule fold_max_upper)
    then show False by (simp add: new_oid_def)
  qed
  then show ?thesis by (simp add: map_of_eq_None_iff)
qed

lemma lobject_new_file_Inr:
  "lobject_new_file fs d path = Inr (oid, d1) \<Longrightarrow>
   (\<exists>content. fs path = Some content \<and> oid = new_oid (lobjects d) \<and>
      d1 = d\<lparr>lobjects := (oid, content) # lobjects d\<rparr>)"
  by (auto simp: lobject_new_file_def Let_def split: option.splits)

lemma blob_refs_written_grow:
  assumes "blob_refs_written d"
  shows "blob_refs_written (d\<lparr>lobjects := (oid, content) # lobjects d\<rparr>)"
  using assms by (auto simp: blob_refs_written_def list_all_iff split: option.splits)

lemma blob_refs_written_update:
  assumes "blob_refs_written d1" and "map_of (lobjects d1) oid \<noteq> None"
  shows "blob_refs_written (update_with_demo d1 key sid t oid)"
  using assms
  by (auto simp: blob_refs_written_def update_with_demo_def sql_update_def list_all_iff
      split: option.splits)

section \<open>The blob is written before the row refers to it\<close>

text \<open>
  C7. In a store where every \<open>demo_oid\<close> of a session row names a stored large object,
  \<open>close_session_with_demo\<close> keeps it so at each of its steps: once the large object is
  written the session rows are still the old ones and the new identifier names a stored
  object; the row update that follows is made with that identifier and leaves every
  \<open>demo_oid\<close> naming a stored object; a failed write fails the whole call; and the store
  left by the call, returned or raised, has no row that refers to an object never written.
\<close>

theorem close_session_with_demo_blob_first:
  assumes "blob_refs_written d"
  shows "(lobject_new_file fs d path = Inr (oid, d1) \<longrightarrow>
            demo_sessions d1 = demo_sessions d \<and> map_of (lobjects d1) oid \<noteq> None \<and>
            blob_refs_written d1 \<and>
            close_session_with_demo fs d key sid t path = Inr (update_with_demo d1 key sid t oid) \<and>
            blob_refs_written (update_with_demo d1 key sid t oid)) \<and>
         (lobject_new_file fs d path = Inl e \<longrightarrow>
            close_session_with_demo fs d key sid t path = Inl e) \<and>
         blob_refs_written (stored_after d (close_session_with_demo fs d key sid t path))"
proof -
  have written: "demo_sessions d1 = demo_sessions d \<and> map_of (lobjects d1) oid \<noteq> None \<and>
      blob_refs_written d1 \<and>
      close_session_with_demo fs d key sid t path = Inr (update_with_demo d1 key sid t oid) \<and>
      blob_refs_written (update_with_demo d1 key sid t oid)"
    if w: "lobject_new_file fs d path = Inr (oid, d1)" for oid d1
  proof -
    from lobject_new_file_Inr [OF w] obtain content
      where d1: "d1 = d\<lparr>lobjects := (oid, content) # lobjects d\<rparr>" by blast
    have rows: "demo_sessions d1 = demo_sessions d" by (simp add: d1)
    have blob: "map_of (lobjects d1) oid \<noteq> None" by (simp add: d1)
    have inv1: "blob_refs_written d1"
      unfolding d1 using assms by (rule blob_refs_written_grow)
    have call: "close_session_with_demo fs d key sid t path
                = Inr (update_with_demo d1 key sid t oid)"
      by (simp add: close_session_with_demo_def w)
    have inv2: "blob_refs_written (update_with_demo d1 key sid t oid)"
      using inv1 blob by (rule blob_refs_written_update)
    from rows blob inv1 call inv2 show ?thesis by simp
  qed
  have failed: "lobject_new_file fs d path = Inl e \<longrightarrow>
      close_session_with_demo fs d key sid t path = Inl e"
    by (simp add: close_session_with_demo_def)
  have stored: "blob_refs_written (stored_after d (close_session_with_demo fs d key sid t path))"
  proof (cases "lobject_new_file fs d path")
    case (Inl e')
    with assms show ?thesis
      by (simp add: close_session_with_demo_def stored_after_def)
  next
    case (Inr p)
    obtain o' d' where p: "p = (o', d')" by (cases p)
    from written [of o' d'] Inr p show ?thesis
      by (simp add: stored_after_def)
  qed
  from written [of oid d1] failed stored show ?thesis by blast
qed

theorem close_session_with_demo_blob_first_witness:
  "blob_refs_written (example_db [example_session ''s1'' ''k1'' True 3])
   \<and> lobject_new_file example_fs (example_db [example_session ''s1'' ''k1'' True 3]) ''/demos/s1.dem''
       = Inr (1, (example_db [example_session ''s1'' ''k1'' True 3])\<lparr>lobjects := [(1, [72, 76, 50])]\<rparr>)
   \<and> close_session_with_demo example_fs (example_db [example_session ''s1'' ''k1'' True 3])
        ''k1'' ''s1'' 9 ''/demos/s1.dem''
       = Inr (update_with_demo
           ((example_db [example_session ''s1'' ''k1'' True 3])\<lparr>lobjects := [(1, [72, 76, 50])]\<rparr>)
           ''k1'' ''s1'' 9 1)
   \<and> blob_refs_written (update_with_demo
           ((example_db [example_session ''s1'' ''k1'' True 3])\<lparr>lobjects := [(1, [72, 76, 50])]\<rparr>)
           ''k1'' ''s1'' 9 1)
   \<and> lobject_new_file example_fs (example_db [example_session ''s1'' ''k1'' True 3]) ''/demos/s7.dem''
       = Inl OperationalError
   \<and> close_session_with_demo example_fs (example_db [example_session ''s1'' ''k1'' True 3])
        ''k1'' ''s1'' 9 ''/demos/s7.dem'' = Inl OperationalError"
  using close_session_with_demo_blob_first
    [of "example_db [example_session ''s1'' ''k1'' True 3]" example_fs "''/demos/s1.dem''" 1
        "(example_db [example_session ''s1'' ''k1'' True 3])\<lparr>lobjects := [(1, [72, 76, 50])]\<rparr>"
        "''k1''" "''s1''" 9 OperationalError]
    close_session_with_demo_blob_first
    [of "example_db [example_session ''s1'' ''k1'' True 3]" example_fs "''/demos/s7.dem''" 1
        "example_db []" "''k1''" "''s1''" 9 OperationalError]
  by (simp add: blob_refs_written_def lobject_new_file_def new_oid_def example_fs_def
        example_db_def example_session_def)

section \<open>Closing a session with its demo\<close>

text \<open>
  C3, as the specification states it, does not hold: with no row for the key \<open>k1\<close> and the
  session \<open>s1\<close>, the call does not fail with \<open>NotFound\<close>. It returns, the large object is
  stored and no session row has changed.
\<close>

theorem close_session_with_demo_no_row:
  "close_session_with_demo example_fs (example_db [example_session ''s2'' ''k2'' True 4])
     ''k1'' ''s1'' 9 ''/demos/s1.dem''
   = Inr ((example_db [example_session ''s2'' ''k2'' True 4])\<lparr>lobjects := [(1, [72, 76, 50])]\<rparr>)
   \<and> close_session_with_demo example_fs (example_db [example_session ''s2'' ''k2'' True 4])
     ''k1'' ''s1'' 9 ''/demos/s1.dem'' \<noteq> Inl NotFound"
  by (simp add: close_session_with_demo_def lobject_new_file_def update_with_demo_def
        new_oid_def sql_update_def example_fs_def example_db_def example_session_def)

text \<open>
  C3, amended. When the file of the demo can be read, \<open>close_session_with_demo\<close> returns: a
  new large object holds the content, every row of the key and session has \<open>active\<close> false,
  \<open>end_time\<close> and \<open>updated_at\<close> at the time given and \<open>demo_oid\<close> the new identifier, every other
  row and table is as before, and when no row matches the session rows are unchanged.
\<close>

theorem close_session_with_demo_effect:
  assumes "fs path = Some content"
  shows "\<exists>oid d'. close_session_with_demo fs d key sid t path = Inr d' \<and>
      map_of (lobjects d) oid = None \<and> map_of (lobjects d') oid = Some content \<and>
      api_keys d' = api_keys d \<and> analysis d' = analysis d \<and> reviews d' = reviews d \<and>
      length (demo_sessions d') = length (demo_sessions d) \<and>
      (\<forall>i < length (demo_sessions d).
         demo_sessions d' ! i =
           (if api_key (demo_sessions d ! i) = key \<and> session_id (demo_sessions d ! i) = sid
            then (demo_sessions d ! i)\<lparr>active := False, end_time := Some t,
                                       demo_oid := Some oid, updated_at := t\<rparr>
            else demo_sessions d ! i)) \<and>
      ((\<forall>r \<in> set (demo_sessions d). \<not> (api_key r = key \<and> session_id r = sid)) \<longrightarrow>
         demo_sessions d' = demo_sessions d)"
proof -
  let ?oid = "new_oid (lobjects d)"
  let ?d1 = "d\<lparr>lobjects := (?oid, content) # lobjects d\<rparr>"
  let ?d' = "update_with_demo ?d1 key sid t ?oid"
  have call: "close_session_with_demo fs d key sid t path = Inr ?d'"
    using assms by (simp add: close_session_with_demo_def lobject_new_file_def Let_def)
  have fresh: "map_of (lobjects d) ?oid = None" by (rule new_oid_fresh)
  have blob: "map_of (lobjects ?d') ?oid = Some content"
    by (simp add: update_with_demo_def)
  have frame: "api_keys ?d' = api_keys d \<and> analysis ?d' = analysis d \<and> reviews ?d' = reviews d \<and>
      length (demo_sessions ?d') = length (demo_sessions d)"
    by (simp add: update_with_demo_def sql_update_length)
  have rows: "\<forall>i < length (demo_sessions d).
         demo_sessions ?d' ! i =
           (if api_key (demo_sessions d ! i) = key \<and> session_id (demo_sessions d ! i) = sid
            then (demo_sessions d ! i)\<lparr>active := False, end_time := Some t,
                                       demo_oid := Some ?oid, updated_at := t\<rparr>
            else demo_sessions d ! i)"
    by (simp add: update_with_demo_def sql_update_nth)
  have nomatch: "(\<forall>r \<in> set (demo_sessions d). \<not> (api_key r = key \<and> session_id r = sid)) \<longrightarrow>
         demo_sessions ?d' = demo_sessions d"
    by (simp add: update_with_demo_def sql_update_none)
  from call fresh blob frame rows nomatch show ?thesis by blast
qed

theorem close_session_with_demo_effect_witness:
  "example_fs ''/demos/s1.dem'' = Some [72, 76, 50]
   \<and> close_session_with_demo example_fs
       (example_db [example_session ''s1'' ''k1'' True 3, example_session ''s2'' ''k2'' True 4])
       ''k1'' ''s1'' 9 ''/demos/s1.dem''
     = Inr ((example_db
          [(example_session ''s1'' ''k1'' True 3)
             \<lparr>active := False, end_time := Some 9, demo_oid := Some 1, updated_at := 9\<rparr>,
           example_session ''s2'' ''k2'' True 4])\<lparr>lobjects := [(1, [72, 76, 50])]\<rparr>)"
  using close_session_with_demo_effect
    [of example_fs "''/demos/s1.dem''" "[72, 76, 50]"
        "example_db [example_session ''s1'' ''k1'' True 3, example_session ''s2'' ''k2'' True 4]"
        "''k1''" "''s1''" 9]
  by (simp add: close_session_with_demo_def lobject_new_file_def update_with_demo_def
        new_oid_def sql_update_def example_fs_def example_db_def example_session_def)

section \<open>Listing sessions: nothing or a non-empty list\<close>

text \<open>
  C9. \<open>get_user_demo_info\<close> returns \<open>None\<close> exactly when the key has no session row; it never
  returns the empty list; it returns a non-empty list exactly when the key has at least one
  session row, and the list has one wrapper for each row of the key.
\<close>

theorem get_user_demo_info_none_or_nonempty:
  "(get_user_demo_info d key = None \<longleftrightarrow> (\<forall>r \<in> set (demo_sessions d). api_key r \<noteq> key)) \<and>
   get_user_demo_info d key \<noteq> Some [] \<and>
   ((\<exists>ds. get_user_demo_info d key = Some ds \<and> ds \<noteq> []) \<longleftrightarrow>
      (\<exists>r \<in> set (demo_sessions d). api_key r = key)) \<and>
   (\<forall>ds. get_user_demo_info d key = Some ds \<longrightarrow>
      length ds = length (sql_select (\<lambda>r. api_key r = key) (demo_sessions d)))"
proof -
  let ?res = "sql_select (\<lambda>r. api_key r = key) (demo_sessions d)"
  have empty: "?res = [] \<longleftrightarrow> (\<forall>r \<in> set (demo_sessions d). api_key r \<noteq> key)"
    by (auto simp: sql_select_def filter_empty_conv)
  show ?thesis
  proof (cases "?res = []")
    case True
    then have "get_user_demo_info d key = None"
      by (simp add: get_user_demo_info_def)
    with True empty show ?thesis by auto
  next
    case False
    then have "get_user_demo_info d key = Some (map (\<lambda>row. from_db_row row True) ?res)"
      by (simp add: get_user_demo_info_def)
    with False empty show ?thesis by auto
  qed
qed

theorem get_user_demo_info_none_or_nonempty_witness:
  "get_user_demo_info (example_db [example_session ''s2'' ''k2'' True 4]) ''k1'' = None
   \<and> get_user_demo_info (example_db []) ''k1'' = None
   \<and> get_user_demo_info
       (example_db [example_session ''s1'' ''k1'' False 3, example_session ''s2'' ''k2'' True 4]) ''k1''
     = Some [from_db_row (example_session ''s1'' ''k1'' False 3) True]"
  using get_user_demo_info_none_or_nonempty
          [of "example_db [example_session ''s2'' ''k2'' True 4]" "''k1''"]
        get_user_demo_info_none_or_nonempty [of "example_db []" "''k1''"]
        get_user_demo_info_none_or_nonempty
          [of "example_db [example_session ''s1'' ''k1'' False 3, example_session ''s2'' ''k2'' True 4]"
              "''k1''"]
  by (simp add: get_user_demo_info_def sql_select_def example_db_def example_session_def)

lemma from_db_row_hides: "dw_api_key (from_db_row row True) = ''0''"
  by (simp add: from_db_row_def)

lemma from_db_row_ignores_key: "from_db_row (row\<lparr>api_key := k\<rparr>) True = from_db_row row True"
  by (simp add: from_db_row_def)

section \<open>Listing sessions: the key is hidden\<close>

text \<open>
  C10. Every wrapper that \<open>get_user_demo_info\<close> returns has the string \<open>''0''\<close> as its
  \<open>api_key\<close>, whoever calls; and the result does not depend on the value of the stored key:
  renaming the keys of the table by an injective function, and asking for the renamed key,
  gives the same list.
\<close>

theorem get_user_demo_info_hides_api_key:
  "(\<forall>ds. get_user_demo_info d key = Some ds \<longrightarrow> (\<forall>w \<in> set ds. dw_api_key w = ''0'')) \<and>
   (inj f \<longrightarrow>
      get_user_demo_info
        (d\<lparr>demo_sessions := map (\<lambda>r. r\<lparr>api_key := f (api_key r)\<rparr>) (demo_sessions d)\<rparr>) (f key)
      = get_user_demo_info d key)"
proof -
  have hidden: "\<forall>ds. get_user_demo_info d key = Some ds \<longrightarrow> (\<forall>w \<in> set ds. dw_api_key w = ''0'')"
    by (auto simp: get_user_demo_info_def Let_def from_db_row_hides split: if_splits)
  have renamed: "get_user_demo_info
        (d\<lparr>demo_sessions := map (\<lambda>r. r\<lparr>api_key := f (api_key r)\<rparr>) (demo_sessions d)\<rparr>) (f key)
      = get_user_demo_info d key" if "inj f"
  proof -
    from that have eq: "f a = f key \<longleftrightarrow> a = key" for a
      by (auto dest: injD)
    have sel: "sql_select (\<lambda>r. api_key r = f key)
                 (map (\<lambda>r. r\<lparr>api_key := f (api_key r)\<rparr>) (demo_sessions d))
               = map (\<lambda>r. r\<lparr>api_key := f (api_key r)\<rparr>)
                   (sql_select (\<lambda>r. api_key r = key) (demo_sessions d))"
      by (simp add: sql_select_def filter_map comp_def eq)
    show ?thesis
      by (simp add: get_user_demo_info_def sel comp_def from_db_row_ignores_key)
  qed
  from hidden renamed show ?thesis by blast
qed

theorem get_user_demo_info_hides_api_key_witness:
  "get_user_demo_info
     (example_db [example_session ''s1'' ''k1'' False 3, example_session ''s2'' ''k2'' True 4]) ''k1''
   = Some [from_db_row (example_session ''s1'' ''k1'' False 3) True]
   \<and> dw_api_key (from_db_row (example_session ''s1'' ''k1'' False 3) True) = ''0''
   \<and> inj ((#) CHR ''x'')
   \<and> get_user_demo_info
       (example_db [example_session ''s1'' ''xk1'' False 3, example_session ''s2'' ''xk2'' True 4]) ''xk1''
     = Some [from_db_row (example_session ''s1'' ''k1'' False 3) True]"
  using get_user_demo_info_hides_api_key
    [of "example_db [example_session ''s1'' ''k1'' False 3, example_session ''s2'' ''k2'' True 4]"
        "''k1''" "(#) CHR ''x''"]
  by (simp add: get_user_demo_info_def from_db_row_def sql_select_def example_db_def
        example_session_def)

lemma SubmitVerdict_Inr:
  "SubmitVerdict d sid target reviewer v t = Inr d' \<Longrightarrow>
   d' = d\<lparr>reviews := reviews d @
          [\<lparr>r_session_id = sid, r_target_steam_id = target, r_reviewer_steam_id = reviewer,
            r_created_at = t, r_verdict = v\<rparr>]\<rparr>"
  by (auto simp: SubmitVerdict_def insert_review_def split: if_splits)

section \<open>A reviewer votes once on a subject\<close>

text \<open>
  C8. After a \<open>SubmitVerdict\<close> that returned, a second one with the same session, target and
  reviewer fails with \<open>DuplicateReview\<close>, whatever its verdict and time; the store it leaves is
  the store after the first call, with the same review rows and the same tally for the
  session and target.
\<close>

theorem SubmitVerdict_twice:
  assumes "SubmitVerdict d sid target reviewer v1 t1 = Inr d'"
  shows "SubmitVerdict d' sid target reviewer v2 t2 = Inl DuplicateReview \<and>
         stored_after d' (SubmitVerdict d' sid target reviewer v2 t2) = d' \<and>
         reviews (stored_after d' (SubmitVerdict d' sid target reviewer v2 t2)) = reviews d' \<and>
         Tally (stored_after d' (SubmitVerdict d' sid target reviewer v2 t2)) sid target
           = Tally d' sid target"
proof -
  from SubmitVerdict_Inr [OF assms]
  have "(sid, target, reviewer) \<in> set (map review_key (reviews d'))"
    by (simp add: review_key_def)
  then have dup: "SubmitVerdict d' sid target reviewer v2 t2 = Inl DuplicateReview"
    by (simp add: SubmitVerdict_def)
  then show ?thesis by (simp add: stored_after_def)
qed

theorem SubmitVerdict_twice_witness:
  "SubmitVerdict
     ((example_db [example_session ''s1'' ''k1'' False 3])
        \<lparr>analysis := [\<lparr>a_session_id = ''s1'', a_target_steam_id = ''7656'', a_created_at = 4,
                       a_detection_count = 2\<rparr>]\<rparr>)
     ''s1'' ''7656'' ''u2'' ''cheater'' 5
   = Inr ((example_db [example_session ''s1'' ''k1'' False 3])
        \<lparr>analysis := [\<lparr>a_session_id = ''s1'', a_target_steam_id = ''7656'', a_created_at = 4,
                       a_detection_count = 2\<rparr>],
         reviews := [\<lparr>r_session_id = ''s1'', r_target_steam_id = ''7656'',
                      r_reviewer_steam_id = ''u2'', r_created_at = 5, r_verdict = ''cheater''\<rparr>]\<rparr>)
   \<and> SubmitVerdict
       ((example_db [example_session ''s1'' ''k1'' False 3])
        \<lparr>analysis := [\<lparr>a_session_id = ''s1'', a_target_steam_id = ''7656'', a_created_at = 4,
                       a_detection_count = 2\<rparr>],
         reviews := [\<lparr>r_session_id = ''s1'', r_target_steam_id = ''7656'',
                      r_reviewer_steam_id = ''u2'', r_created_at = 5, r_verdict = ''cheater''\<rparr>]\<rparr>)
       ''s1'' ''7656'' ''u2'' ''bot'' 6
     = Inl DuplicateReview
   \<and> Tally
       ((example_db [example_session ''s1'' ''k1'' False 3])
        \<lparr>analysis := [\<lparr>a_session_id = ''s1'', a_target_steam_id = ''7656'', a_created_at = 4,
                       a_detection_count = 2\<rparr>],
         reviews := [\<lparr>r_session_id = ''s1'', r_target_steam_id = ''7656'',
                      r_reviewer_steam_id = ''u2'', r_created_at = 5, r_verdict = ''cheater''\<rparr>]\<rparr>)
       ''s1'' ''7656'' ''cheater'' = 1"
  using SubmitVerdict_twice
    [of "(example_db [example_session ''s1'' ''k1'' False 3])
        \<lparr>analysis := [\<lparr>a_session_id = ''s1'', a_target_steam_id = ''7656'', a_created_at = 4,
                       a_detection_count = 2\<rparr>]\<rparr>"
        "''s1''" "''7656''" "''u2''" "''cheater''" 5
        "(example_db [example_session ''s1'' ''k1'' False 3])
        \<lparr>analysis := [\<lparr>a_session_id = ''s1'', a_target_steam_id = ''7656'', a_created_at = 4,
                       a_detection_count = 2\<rparr>],
         reviews := [\<lparr>r_session_id = ''s1'', r_target_steam_id = ''7656'',
                      r_reviewer_steam_id = ''u2'', r_created_at = 5, r_verdict = ''cheater''\<rparr>]\<rparr>"
        "''bot''" 6]
  by (simp add: SubmitVerdict_def insert_review_def review_key_def Tally_def sql_select_def
        example_db_def example_session_def)

section \<open>The latest session of a key\<close>

lemma scalar_one_or_none_Some: "scalar_one_or_none xs = Inr (Some x) \<Longrightarrow> xs = [x]"
  by (cases xs rule: scalar_one_or_none.cases) auto

lemma get_latest_session_id_none:
  assumes "\<forall>r \<in> set (demo_sessions d). api_key r \<noteq> key"
  shows "get_latest_session_id d key = Inr None"
proof -
  from assms have "sql_select (\<lambda>r. api_key r = key) (demo_sessions d) = []"
    by (auto simp: sql_select_def filter_empty_conv)
  then show ?thesis
    by (simp add: get_latest_session_id_def sql_select_def)
qed

lemma get_latest_session_id_sound:
  assumes "get_latest_session_id d key = Inr (Some sid)"
  shows "\<exists>r \<in> set (demo_sessions d). session_id r = sid \<and> api_key r = key \<and>
           (\<forall>x \<in> set (demo_sessions d). api_key x = key \<longrightarrow> start_time x \<le> start_time r)"
proof -
  let ?ts = "map start_time (sql_select (\<lambda>r. api_key r = key) (demo_sessions d))"
  let ?hit = "sql_select (\<lambda>r. Some (start_time r) = sql_max ?ts) (demo_sessions d)"
  from assms have "map session_id ?hit = [sid]"
    by (simp add: get_latest_session_id_def Let_def scalar_one_or_none_Some)
  then obtain r0 where hit: "?hit = [r0]" and sid: "session_id r0 = sid"
    by (auto simp: map_eq_Cons_conv)
  from hit have "r0 \<in> set ?hit" by simp
  then have r0: "r0 \<in> set (demo_sessions d)" and m0: "sql_max ?ts = Some (start_time r0)"
    by (auto simp: sql_select_def)
  from m0 have ne: "?ts \<noteq> []" by (auto simp: sql_max_None [symmetric])
  with m0 have mx: "Max (set ?ts) = start_time r0" by (simp add: sql_max_Some)
  from ne have "Max (set ?ts) \<in> set ?ts" by (intro Max_in) auto
  then obtain rk where rk: "rk \<in> set (demo_sessions d)" "api_key rk = key"
      "start_time rk = Max (set ?ts)"
    by (auto simp: sql_select_def)
  with mx m0 have "rk \<in> set ?hit" by (simp add: sql_select_def)
  with hit have "rk = r0" by simp
  with rk have key0: "api_key r0 = key" by simp
  have "start_time x \<le> start_time r0" if "x \<in> set (demo_sessions d)" "api_key x = key" for x
  proof -
    from that have "start_time x \<in> set ?ts" by (auto simp: sql_select_def)
    then have "start_time x \<le> Max (set ?ts)" by (intro Max_ge) auto
    with mx show ?thesis by simp
  qed
  with r0 sid key0 show ?thesis by blast
qed

text \<open>
  C2 fails on the code. The outer query of \<open>get_latest_session_id\<close> does not restrict the key:
  when a session of another key starts at the same time as the latest session of the key
  asked for, the query gives two rows and the call raises \<open>MultipleResultsFound\<close> instead of
  returning the session of the key.
\<close>

theorem get_latest_session_id_other_key_tie:
  "get_latest_session_id
     (example_db [example_session ''s1'' ''k1'' False 5, example_session ''s2'' ''k2'' False 5]) ''k1''
   = Inl MultipleResultsFound"
  by (simp add: get_latest_session_id_def sql_select_def example_db_def example_session_def)

section \<open>Rotating a key\<close>

lemma update_api_key_rows:
  "update_api_key d steam new_api_key =
     Inr (d\<lparr>api_keys := map (\<lambda>r. if k_steam_id r = steam then r\<lparr>k_api_key := new_api_key\<rparr> else r)
                           (api_keys d)\<rparr>)"
  by (simp add: update_api_key_def sql_update_def)

lemma update_api_key_updated_at:
  "update_api_key d steam new_api_key = Inr d' \<Longrightarrow>
   map k_updated_at (api_keys d') = map k_updated_at (api_keys d)"
  by (auto simp: update_api_key_def sql_update_def)

text \<open>
  C4 fails on the code. \<open>update_api_key\<close> overwrites the key of the identity \<open>u1\<close> and leaves
  the other row alone, but the \<open>updated_at\<close> of the row it rewrites is still the old one.
\<close>

theorem update_api_key_no_bump:
  "update_api_key (example_db []) ''u1'' ''k9''
   = Inr ((example_db [])
       \<lparr>api_keys :=
          [\<lparr>k_steam_id = ''u1'', k_api_key = ''k9'', k_created_at = 1, k_updated_at = 1\<rparr>,
           \<lparr>k_steam_id = ''u2'', k_api_key = ''k2'', k_created_at = 2, k_updated_at = 2\<rparr>]\<rparr>)"
  by (simp add: update_api_key_def sql_update_def example_db_def example_keys_def)

section \<open>The other operations and the invariant\<close>

text \<open>
  The operations that rewrite session rows never set \<open>active\<close> to true and never change a
  key, so they keep the store at one active session for each key.
\<close>

lemma distinct_keys_after_update:
  assumes "distinct (map api_key (filter active rows))"
    and "\<And>r. api_key (upd r) = api_key r"
    and "\<And>r. active (upd r) \<Longrightarrow> active r"
  shows "distinct (map api_key (filter active (sql_update wh upd rows)))"
  using assms(1)
proof (induction rows)
  case Nil
  show ?case by (simp add: sql_update_def)
next
  case (Cons r rows)
  have sub: "set (map api_key (filter active (sql_update wh upd rows)))
             \<subseteq> set (map api_key (filter active rows))"
    using assms(2,3) by (fastforce simp: sql_update_def)
  from Cons.prems have tl: "distinct (map api_key (filter active rows))"
    by (simp split: if_splits)
  have ih: "distinct (map api_key (filter active (sql_update wh upd rows)))"
    using Cons.IH tl by simp
  have head: "api_key r \<notin> set (map api_key (filter active rows))" if "active r"
    using Cons.prems that by simp
  have unfold: "sql_update wh upd (r # rows) = (if wh r then upd r else r) # sql_update wh upd rows"
    by (simp add: sql_update_def)
  show ?case
  proof (cases "active (if wh r then upd r else r)")
    case False
    with ih show ?thesis by (simp add: unfold)
  next
    case True
    then have "active r" using assms(3) by (auto split: if_splits)
    then have "api_key r \<notin> set (map api_key (filter active (sql_update wh upd rows)))"
      using head sub by blast
    moreover have "api_key (if wh r then upd r else r) = api_key r"
      using assms(2) by simp
    ultimately show ?thesis using True ih by (simp add: unfold)
  qed
qed

lemma close_session_one_active:
  assumes "one_active_per_key d" and "close_session d key t = Inr d'"
  shows "one_active_per_key d'"
proof -
  define W where "W = (\<lambda>r::demo_session. active r \<and> api_key r = key)"
  define U where "U = (\<lambda>r::demo_session. r\<lparr>active := False, end_time := Some t, updated_at := t\<rparr>)"
  from assms(2) have "demo_sessions d' = sql_update W U (demo_sessions d) \<and>
      (\<forall>r. api_key (U r) = api_key r) \<and> (\<forall>r. active (U r) \<longrightarrow> active r)"
    by (auto simp: close_session_def W_def U_def)
  then have rows: "demo_sessions d' = sql_update W U (demo_sessions d)"
    and key: "\<And>r. api_key (U r) = api_key r" and act: "\<And>r. active (U r) \<Longrightarrow> active r"
    by simp_all
  from assms(1) have base: "distinct (map api_key (filter active (demo_sessions d)))"
    by (simp add: one_active_per_key_def sql_select_def)
  have "distinct (map api_key (filter active (demo_sessions d')))"
    unfolding rows using base key act by (rule distinct_keys_after_update)
  then show ?thesis
    by (simp add: one_active_per_key_def sql_select_def)
qed

lemma close_session_with_demo_one_active:
  assumes "one_active_per_key d" and "close_session_with_demo fs d key sid t path = Inr d'"
  shows "one_active_per_key d'"
proof -
  define W where "W = (\<lambda>r::demo_session. api_key r = key \<and> session_id r = sid)"
  define U where "U = (\<lambda>r::demo_session.
      r\<lparr>active := False, end_time := Some t, demo_oid := Some (new_oid (lobjects d)),
        updated_at := t\<rparr>)"
  from assms(2) have "demo_sessions d' = sql_update W U (demo_sessions d) \<and>
      (\<forall>r. api_key (U r) = api_key r) \<and> (\<forall>r. active (U r) \<longrightarrow> active r)"
    by (auto simp: close_session_with_demo_def lobject_new_file_def update_with_demo_def Let_def
        W_def U_def split: option.splits)
  then have rows: "demo_sessions d' = sql_update W U (demo_sessions d)"
    and key: "\<And>r. api_key (U r) = api_key r" and act: "\<And>r. active (U r) \<Longrightarrow> active r"
    by simp_all
  from assms(1) have base: "distinct (map api_key (filter active (demo_sessions d)))"
    by (simp add: one_active_per_key_def sql_select_def)
  have "distinct (map api_key (filter active (demo_sessions d')))"
    unfolding rows using base key act by (rule distinct_keys_after_update)
  then show ?thesis
    by (simp add: one_active_per_key_def sql_select_def)
qed

lemma late_bytes_fn_one_active:
  assumes "one_active_per_key d" and "late_bytes_fn d key lb t = Inr d'"
  shows "one_active_per_key d'"
proof -
  define W where "W = (\<lambda>r::demo_session. api_key r = key \<and> Some (updated_at r) =
      sql_max (map updated_at (sql_select (\<lambda>r. api_key r = key) (demo_sessions d))))"
  define U where "U = (\<lambda>r::demo_session. r\<lparr>late_bytes := Some lb, updated_at := t\<rparr>)"
  from assms(2) have "demo_sessions d' = sql_update W U (demo_sessions d) \<and>
      (\<forall>r. api_key (U r) = api_key r) \<and> (\<forall>r. active (U r) \<longrightarrow> active r)"
    by (auto simp: late_bytes_fn_def Let_def W_def U_def)
  then have rows: "demo_sessions d' = sql_update W U (demo_sessions d)"
    and key: "\<And>r. api_key (U r) = api_key r" and act: "\<And>r. active (U r) \<Longrightarrow> active r"
    by simp_all
  from assms(1) have base: "distinct (map api_key (filter active (demo_sessions d)))"
    by (simp add: one_active_per_key_def sql_select_def)
  have "distinct (map api_key (filter active (demo_sessions d')))"
    unfolding rows using base key act by (rule distinct_keys_after_update)
  then show ?thesis
    by (simp add: one_active_per_key_def sql_select_def)
qed

section \<open>Late bytes when several sessions share the latest time\<close>

text \<open>
  Without the assumption of a single latest session, \<open>late_bytes_fn\<close> rewrites every session
  of the key whose \<open>updated_at\<close> is the greatest of the key, and no other row.
\<close>

lemma late_bytes_fn_rows:
  "late_bytes_fn d key lb t =
     Inr (d\<lparr>demo_sessions :=
       map (\<lambda>x. if api_key x = key \<and>
                   (\<forall>y \<in> set (demo_sessions d). api_key y = key \<longrightarrow> updated_at y \<le> updated_at x)
                then x\<lparr>late_bytes := Some lb, updated_at := t\<rparr> else x)
         (demo_sessions d)\<rparr>)"
proof -
  let ?ts = "map updated_at (sql_select (\<lambda>x. api_key x = key) (demo_sessions d))"
  have sel: "(api_key x = key \<and> Some (updated_at x) = sql_max ?ts) \<longleftrightarrow>
             (api_key x = key \<and>
               (\<forall>y \<in> set (demo_sessions d). api_key y = key \<longrightarrow> updated_at y \<le> updated_at x))"
    if x: "x \<in> set (demo_sessions d)" for x
  proof (cases "api_key x = key")
    case False
    then show ?thesis by simp
  next
    case True
    with x have mem: "updated_at x \<in> set ?ts" by (auto simp: sql_select_def)
    then have ne: "?ts \<noteq> []" by auto
    have all: "(\<forall>y \<in> set (demo_sessions d). api_key y = key \<longrightarrow> updated_at y \<le> updated_at x)
               \<longleftrightarrow> (\<forall>v \<in> set ?ts. v \<le> updated_at x)"
      by (auto simp: sql_select_def)
    have "Max (set ?ts) = updated_at x \<longleftrightarrow> (\<forall>v \<in> set ?ts. v \<le> updated_at x)"
    proof
      assume "Max (set ?ts) = updated_at x"
      then show "\<forall>v \<in> set ?ts. v \<le> updated_at x"
        using Max_ge [of "set ?ts"] by auto
    next
      assume "\<forall>v \<in> set ?ts. v \<le> updated_at x"
      with mem show "Max (set ?ts) = updated_at x"
        by (intro Max_eqI) auto
    qed
    with ne True all show ?thesis
      by (auto simp: sql_max_Some)
  qed
  have "sql_update (\<lambda>x. api_key x = key \<and> Some (updated_at x) = sql_max ?ts)
          (\<lambda>x. x\<lparr>late_bytes := Some lb, updated_at := t\<rparr>) (demo_sessions d)
        = map (\<lambda>x. if api_key x = key \<and>
                   (\<forall>y \<in> set (demo_sessions d). api_key y = key \<longrightarrow> updated_at y \<le> updated_at x)
                then x\<lparr>late_bytes := Some lb, updated_at := t\<rparr> else x) (demo_sessions d)"
    unfolding sql_update_def by (rule map_cong) (simp_all add: sel)
  then show ?thesis
    by (simp add: late_bytes_fn_def Let_def)
qed

end
